theory Spec2Isabelle
  imports Main "HOL-Library.Word"
begin

section \<open>The RPC message envelope of torch/csrc/distributed/rpc/message.cpp\<close>

subsection \<open>Machine integers\<close>

text \<open>
  \<^verbatim>\<open>int64_t\<close> is a 64-bit word. A value of the enumeration type \<^verbatim>\<open>MessageType\<close> is
  stored as a C++ \<^verbatim>\<open>int\<close>, a 32-bit word: an enumeration object holds an integer, and the
  enumerators are named integers. Passing a \<^verbatim>\<open>MessageType\<close> where an \<^verbatim>\<open>IValue\<close> is expected
  widens it to \<^verbatim>\<open>int64_t\<close> with its sign; \<^verbatim>\<open>static_cast<MessageType>\<close> of an \<^verbatim>\<open>int64_t\<close>
  keeps the low 32 bits.
\<close>

type_synonym int64_t = "64 word"
type_synonym MessageType = "32 word"

definition int64_of_MessageType :: "MessageType \<Rightarrow> int64_t" where
  "int64_of_MessageType t = scast t"

definition static_cast_MessageType :: "int64_t \<Rightarrow> MessageType" where
  "static_cast_MessageType i = ucast i"

subsection \<open>The enumeration MessageType\<close>

text \<open>
  Modelled from the spec: the declaration of \<^verbatim>\<open>enum MessageType\<close> is in message.h, which is
  not among the sources. The enumerators are the twenty-four kinds that message.cpp names
  (they are the kinds of section 4.2 of the specification: calls, remote-reference creation,
  fetch and lifecycle messages, autograd propagation and cleanup, profiling, the returns, and
  the exception kind). Neither message.cpp nor the specification gives their integer tags:
  they are numbered here from 0 in the order in which message.cpp first names them, and
  nothing below uses more of the numbering than that the tags are pairwise distinct.
\<close>

definition SCRIPT_CALL :: MessageType where "SCRIPT_CALL = 0"
definition PYTHON_CALL :: MessageType where "PYTHON_CALL = 1"
definition SCRIPT_REMOTE_CALL :: MessageType where "SCRIPT_REMOTE_CALL = 2"
definition PYTHON_REMOTE_CALL :: MessageType where "PYTHON_REMOTE_CALL = 3"
definition SCRIPT_RREF_FETCH_CALL :: MessageType where "SCRIPT_RREF_FETCH_CALL = 4"
definition PYTHON_RREF_FETCH_CALL :: MessageType where "PYTHON_RREF_FETCH_CALL = 5"
definition RREF_USER_DELETE :: MessageType where "RREF_USER_DELETE = 6"
definition RREF_CHILD_ACCEPT :: MessageType where "RREF_CHILD_ACCEPT = 7"
definition RREF_FORK_REQUEST :: MessageType where "RREF_FORK_REQUEST = 8"
definition BACKWARD_AUTOGRAD_REQ :: MessageType where "BACKWARD_AUTOGRAD_REQ = 9"
definition FORWARD_AUTOGRAD_REQ :: MessageType where "FORWARD_AUTOGRAD_REQ = 10"
definition CLEANUP_AUTOGRAD_CONTEXT_REQ :: MessageType where
  "CLEANUP_AUTOGRAD_CONTEXT_REQ = 11"
definition RUN_WITH_PROFILING_REQ :: MessageType where "RUN_WITH_PROFILING_REQ = 12"
definition SCRIPT_RET :: MessageType where "SCRIPT_RET = 13"
definition PYTHON_RET :: MessageType where "PYTHON_RET = 14"
definition REMOTE_RET :: MessageType where "REMOTE_RET = 15"
definition SCRIPT_RREF_FETCH_RET :: MessageType where "SCRIPT_RREF_FETCH_RET = 16"
definition PYTHON_RREF_FETCH_RET :: MessageType where "PYTHON_RREF_FETCH_RET = 17"
definition EXCEPTION :: MessageType where "EXCEPTION = 18"
definition RREF_ACK :: MessageType where "RREF_ACK = 19"
definition BACKWARD_AUTOGRAD_RESP :: MessageType where "BACKWARD_AUTOGRAD_RESP = 20"
definition FORWARD_AUTOGRAD_RESP :: MessageType where "FORWARD_AUTOGRAD_RESP = 21"
definition CLEANUP_AUTOGRAD_CONTEXT_RESP :: MessageType where
  "CLEANUP_AUTOGRAD_CONTEXT_RESP = 22"
definition RUN_WITH_PROFILING_RESP :: MessageType where "RUN_WITH_PROFILING_RESP = 23"

definition MessageType_enumerators :: "MessageType list" where
  "MessageType_enumerators =
     [SCRIPT_CALL, PYTHON_CALL, SCRIPT_REMOTE_CALL, PYTHON_REMOTE_CALL,
      SCRIPT_RREF_FETCH_CALL, PYTHON_RREF_FETCH_CALL, RREF_USER_DELETE, RREF_CHILD_ACCEPT,
      RREF_FORK_REQUEST, BACKWARD_AUTOGRAD_REQ, FORWARD_AUTOGRAD_REQ,
      CLEANUP_AUTOGRAD_CONTEXT_REQ, RUN_WITH_PROFILING_REQ, SCRIPT_RET, PYTHON_RET,
      REMOTE_RET, SCRIPT_RREF_FETCH_RET, PYTHON_RREF_FETCH_RET, EXCEPTION, RREF_ACK,
      BACKWARD_AUTOGRAD_RESP, FORWARD_AUTOGRAD_RESP, CLEANUP_AUTOGRAD_CONTEXT_RESP,
      RUN_WITH_PROFILING_RESP]"

subsection \<open>The class Message\<close>

text \<open>
  The four data members of \<^verbatim>\<open>Message\<close>: \<^verbatim>\<open>payload_\<close>, \<^verbatim>\<open>tensors_\<close>, \<^verbatim>\<open>type_\<close> and \<^verbatim>\<open>id_\<close>
  (a name cannot end in an underscore here, so each carries the suffix \<open>mem\<close>). The
  payload is a \<^verbatim>\<open>std::vector<char>\<close>, a list of bytes. A \<^verbatim>\<open>torch::Tensor\<close> is a handle to
  tensor data owned elsewhere; the code copies, moves and lists handles and never looks
  inside one, so the handle type is a parameter.
\<close>

record 'h Message =
  payload_mem :: "char list"
  tensors_mem :: "'h list"
  type_mem :: MessageType
  id_mem :: int64_t

text \<open>
  The constructor taking payload, tensors, type and id. Its vector parameters are rvalue
  references, and the members are move-constructed from them: the new object gets the
  contents, and the vectors passed in are left empty (a caller that keeps them says so).
  The default constructor and the constructor without an id take the type and the id from
  the default member initialisers of message.h; nothing below is about them.
\<close>

definition Message_ctor :: "char list \<Rightarrow> 'h list \<Rightarrow> MessageType \<Rightarrow> int64_t \<Rightarrow> 'h Message" where
  "Message_ctor payload tensors type ident =
     \<lparr>payload_mem = payload, tensors_mem = tensors, type_mem = type, id_mem = ident\<rparr>"

text \<open>
  The read accessors \<^verbatim>\<open>payload()\<close>, \<^verbatim>\<open>tensors()\<close>, \<^verbatim>\<open>type()\<close> and \<^verbatim>\<open>id()\<close>, with the
  suffix \<open>acc\<close> to keep their names apart from local variables and library constants.
\<close>

definition payload_acc :: "'h Message \<Rightarrow> char list" where
  "payload_acc m = payload_mem m"

definition tensors_acc :: "'h Message \<Rightarrow> 'h list" where
  "tensors_acc m = tensors_mem m"

definition type_acc :: "'h Message \<Rightarrow> MessageType" where
  "type_acc m = type_mem m"

definition id_acc :: "'h Message \<Rightarrow> int64_t" where
  "id_acc m = id_mem m"

subsection \<open>Classification\<close>

definition isRequest :: "'h Message \<Rightarrow> bool" where
  "isRequest m \<longleftrightarrow>
     SCRIPT_CALL = type_mem m \<or>
     PYTHON_CALL = type_mem m \<or>
     SCRIPT_REMOTE_CALL = type_mem m \<or>
     PYTHON_REMOTE_CALL = type_mem m \<or>
     SCRIPT_RREF_FETCH_CALL = type_mem m \<or>
     PYTHON_RREF_FETCH_CALL = type_mem m \<or>
     RREF_USER_DELETE = type_mem m \<or>
     RREF_CHILD_ACCEPT = type_mem m \<or>
     RREF_FORK_REQUEST = type_mem m \<or>
     BACKWARD_AUTOGRAD_REQ = type_mem m \<or>
     FORWARD_AUTOGRAD_REQ = type_mem m \<or>
     CLEANUP_AUTOGRAD_CONTEXT_REQ = type_mem m \<or>
     RUN_WITH_PROFILING_REQ = type_mem m"

definition isResponse :: "'h Message \<Rightarrow> bool" where
  "isResponse m \<longleftrightarrow>
     SCRIPT_RET = type_mem m \<or>
     PYTHON_RET = type_mem m \<or>
     REMOTE_RET = type_mem m \<or>
     SCRIPT_RREF_FETCH_RET = type_mem m \<or>
     PYTHON_RREF_FETCH_RET = type_mem m \<or>
     EXCEPTION = type_mem m \<or>
     RREF_ACK = type_mem m \<or>
     BACKWARD_AUTOGRAD_RESP = type_mem m \<or>
     FORWARD_AUTOGRAD_RESP = type_mem m \<or>
     CLEANUP_AUTOGRAD_CONTEXT_RESP = type_mem m \<or>
     RUN_WITH_PROFILING_RESP = type_mem m"

subsection \<open>The tagged value type IValue\<close>

text \<open>
  Modelled from the spec: \<^verbatim>\<open>at::IValue\<close> is declared in ATen, not among the sources. Section 6
  of the specification describes it as a dynamically typed value with tuple, list, string and
  integer variants, runtime tests \<^verbatim>\<open>isTuple\<close>, \<^verbatim>\<open>isString\<close>, \<^verbatim>\<open>isList\<close>, \<^verbatim>\<open>isInt\<close> and the
  matching extraction operations; a handle is a value too, since a list of handles is a list
  of values. An extraction applied to a value of another variant fails. The specification
  says nothing about extracting handles from a list that holds something else: here that
  extraction fails as well.
\<close>

datatype 'h IValue =
    NoneV
  | IntV int64_t
  | StringV "char list"
  | TensorV 'h
  | GenericListV "'h IValue list"
  | TupleV "'h IValue list"

text \<open>
  What a call can end with instead of a result: a failed \<^verbatim>\<open>TORCH_INTERNAL_ASSERT\<close> with its
  message, an extraction from a value of the wrong variant, or \<^verbatim>\<open>std::bad_alloc\<close> from a
  vector copy.
\<close>

datatype error =
    InternalAssert "char list"
  | WrongVariant
  | BadAlloc

fun isTuple :: "'h IValue \<Rightarrow> bool" where
  "isTuple (TupleV vs) = True"
| "isTuple _ = False"

fun isString :: "'h IValue \<Rightarrow> bool" where
  "isString (StringV s) = True"
| "isString _ = False"

fun isList :: "'h IValue \<Rightarrow> bool" where
  "isList (GenericListV vs) = True"
| "isList _ = False"

fun isInt :: "'h IValue \<Rightarrow> bool" where
  "isInt (IntV i) = True"
| "isInt _ = False"

fun elements :: "'h IValue \<Rightarrow> error + 'h IValue list" where
  "elements (TupleV vs) = Inr vs"
| "elements _ = Inl WrongVariant"

fun toStringRef :: "'h IValue \<Rightarrow> error + char list" where
  "toStringRef (StringV s) = Inr s"
| "toStringRef _ = Inl WrongVariant"

fun toInt :: "'h IValue \<Rightarrow> error + int64_t" where
  "toInt (IntV i) = Inr i"
| "toInt _ = Inl WrongVariant"

fun toTensor :: "'h IValue \<Rightarrow> error + 'h" where
  "toTensor (TensorV h) = Inr h"
| "toTensor _ = Inl WrongVariant"

text \<open>The element-by-element extraction of a list of handles, in list order.\<close>

fun toTensors :: "'h IValue list \<Rightarrow> error + 'h list" where
  "toTensors [] = Inr []"
| "toTensors (v # vs) =
     (case toTensor v of
        Inl e \<Rightarrow> Inl e
      | Inr h \<Rightarrow> (case toTensors vs of Inl e \<Rightarrow> Inl e | Inr hs \<Rightarrow> Inr (h # hs)))"

fun toTensorVector :: "'h IValue \<Rightarrow> error + 'h list" where
  "toTensorVector (GenericListV vs) = toTensors vs"
| "toTensorVector _ = Inl WrongVariant"

subsection \<open>The tuple codec\<close>

text \<open>
  The slot numbers of \<^verbatim>\<open>enum MessageIValueIdx\<close> (\<^verbatim>\<open>TYPE\<close> is reserved syntax here, hence
  \<open>TYPE_IDX\<close>).
\<close>

definition PAYLOAD :: nat where "PAYLOAD = 0"
definition TENSORS :: nat where "TENSORS = 1"
definition TYPE_IDX :: nat where "TYPE_IDX = 2"
definition ID :: nat where "ID = 3"
definition SIZE :: nat where "SIZE = 4"

text \<open>
  The loop of \<^verbatim>\<open>toIValueTuple\<close>: each handle of \<^verbatim>\<open>tensors_mem\<close>, in order, is appended to the
  list under construction.
\<close>

fun emplace_back_all :: "'h IValue list \<Rightarrow> 'h list \<Rightarrow> 'h IValue list" where
  "emplace_back_all messageTensors [] = messageTensors"
| "emplace_back_all messageTensors (tensor # rest) =
     emplace_back_all (messageTensors @ [TensorV tensor]) rest"

text \<open>
  \<^verbatim>\<open>toIValueTuple\<close>. The string is built from the byte range of the payload, so it has the
  same bytes.
\<close>

definition toIValueTuple :: "'h Message \<Rightarrow> 'h IValue" where
  "toIValueTuple m =
     (let payload = payload_mem m;
          messageTensors = emplace_back_all [] (tensors_mem m)
      in TupleV [StringV payload, GenericListV messageTensors,
                 IntV (int64_of_MessageType (type_mem m)), IntV (id_mem m)])"

text \<open>
  \<^verbatim>\<open>fromIValueTuple\<close>. Each \<^verbatim>\<open>TORCH_INTERNAL_ASSERT\<close> that fails ends the call with its
  message; the checks come in the order of the source. The second message is built by
  \<^verbatim>\<open>c10::str\<close> from \<^verbatim>\<open>SIZE\<close>, which is 4. The slots are read by index after the length
  check, so every index is in range.
\<close>

definition fromIValueTuple :: "'h IValue \<Rightarrow> error + 'h Message" where
  "fromIValueTuple messageTuple =
     (if \<not> isTuple messageTuple
      then Inl (InternalAssert ''Expected messageTuple to be of type tuple.'')
      else case elements messageTuple of
        Inl e \<Rightarrow> Inl e
      | Inr values \<Rightarrow>
     (if length values \<noteq> SIZE
      then Inl (InternalAssert ''Expected 4 elements in tuple.'')
      else let payloadIValue = values ! PAYLOAD in
      if \<not> isString payloadIValue
      then Inl (InternalAssert ''Expected payload to be string'')
      else case toStringRef payloadIValue of
        Inl e \<Rightarrow> Inl e
      | Inr payloadString \<Rightarrow>
     (let payload = payloadString;
          tensorsIValue = values ! TENSORS in
      if \<not> isList tensorsIValue
      then Inl (InternalAssert ''Expected tensorsIValue to be list'')
      else case toTensorVector tensorsIValue of
        Inl e \<Rightarrow> Inl e
      | Inr tensors \<Rightarrow>
     (let messageTypeIValue = values ! TYPE_IDX in
      if \<not> isInt messageTypeIValue
      then Inl (InternalAssert ''Expected messageTypeIValue to be int.'')
      else case toInt messageTypeIValue of
        Inl e \<Rightarrow> Inl e
      | Inr typeInt \<Rightarrow>
     (let messageType = static_cast_MessageType typeInt;
          messageIdIValue = values ! ID in
      if \<not> isInt messageIdIValue
      then Inl (InternalAssert ''Expected messageIdIValue to be int.'')
      else case toInt messageIdIValue of
        Inl e \<Rightarrow> Inl e
      | Inr messageId \<Rightarrow> Inr (Message_ctor payload tensors messageType messageId))))))"

subsection \<open>The exception response\<close>

text \<open>
  \<^verbatim>\<open>createExceptionResponse\<close> on a string: the payload vector is built from the byte range
  of the string, the tensor vector is empty, the type is \<^verbatim>\<open>EXCEPTION\<close>.
\<close>

definition createExceptionResponse :: "char list \<Rightarrow> int64_t \<Rightarrow> 'h Message" where
  "createExceptionResponse exceptionStr ident =
     (let payload = exceptionStr
      in Message_ctor payload [] EXCEPTION ident)"

text \<open>
  A \<^verbatim>\<open>std::exception\<close> is used only through \<^verbatim>\<open>what()\<close>, the C string describing it, from
  which the string argument of the other overload is built.
\<close>

datatype exception = Exception (what: "char list")

definition createExceptionResponse_exception :: "exception \<Rightarrow> int64_t \<Rightarrow> 'h Message" where
  "createExceptionResponse_exception e ident = createExceptionResponse (what e) ident"

subsection \<open>Objects in memory: construction, assignment, mutation\<close>

text \<open>
  A reference to a \<^verbatim>\<open>Message\<close> is the address of an object, and the heap gives the object at
  each address; two references alias when the addresses are equal. A vector member is held
  by value: each object has its own buffer. A call either returns, or throws and leaves the
  heap it had reached.
\<close>

type_synonym addr = nat
type_synonym 'h heap = "addr \<Rightarrow> 'h Message"

datatype 'h outcome =
    Returns (heap_of: "'h heap")
  | Throws (thrown: error) (heap_of: "'h heap")

text \<open>
  Copying a vector allocates a buffer; the allocation fails when the allocator has no
  memory, and then the copy throws. Whether memory is left is the environment's choice, the
  first argument. Moving a vector allocates nothing and cannot fail.
\<close>

definition vector_copy :: "bool \<Rightarrow> 'a list \<Rightarrow> error + 'a list" where
  "vector_copy memory_left xs = (if memory_left then Inr xs else Inl BadAlloc)"

definition std_swap :: "'a \<Rightarrow> 'a \<Rightarrow> 'a \<times> 'a" where
  "std_swap a b = (b, a)"

text \<open>
  \<^verbatim>\<open>Message::swap\<close>, on two distinct objects \<open>this\<close> and \<open>rhs\<close>: the pair of their new values.
  The assignment operators call it on a fresh temporary and the target.
\<close>

definition swap :: "'h Message \<Rightarrow> 'h Message \<Rightarrow> 'h Message \<times> 'h Message" where
  "swap this rhs =
     (let (p1, p2) = std_swap (payload_mem this) (payload_mem rhs);
          (t1, t2) = std_swap (tensors_mem this) (tensors_mem rhs);
          (k1, k2) = std_swap (type_mem this) (type_mem rhs);
          (i1, i2) = std_swap (id_mem this) (id_mem rhs)
      in (\<lparr>payload_mem = p1, tensors_mem = t1, type_mem = k1, id_mem = i1\<rparr>,
          \<lparr>payload_mem = p2, tensors_mem = t2, type_mem = k2, id_mem = i2\<rparr>))"

text \<open>
  The copy constructor is the default one: the object at the new address gets a copy of
  each member of \<open>other\<close>, in turn; if a vector copy throws, no object is constructed.
\<close>

definition copy_construct :: "bool \<Rightarrow> bool \<Rightarrow> 'h heap \<Rightarrow> addr \<Rightarrow> addr \<Rightarrow> 'h outcome" where
  "copy_construct mem1 mem2 \<sigma> new other =
     (case vector_copy mem1 (payload_mem (\<sigma> other)) of
        Inl e \<Rightarrow> Throws e \<sigma>
      | Inr payload \<Rightarrow>
     (case vector_copy mem2 (tensors_mem (\<sigma> other)) of
        Inl e \<Rightarrow> Throws e \<sigma>
      | Inr tensors \<Rightarrow>
          Returns (\<sigma>(new := \<lparr>payload_mem = payload, tensors_mem = tensors,
                               type_mem = type_mem (\<sigma> other), id_mem = id_mem (\<sigma> other)\<rparr>))))"

text \<open>
  The move constructor is the default one: the vectors are moved out of \<open>other\<close>, which keeps
  them empty, and type and id are copied.
\<close>

definition move_construct :: "'h heap \<Rightarrow> addr \<Rightarrow> addr \<Rightarrow> 'h outcome" where
  "move_construct \<sigma> new other =
     (let moved = \<lparr>payload_mem = payload_mem (\<sigma> other), tensors_mem = tensors_mem (\<sigma> other),
                   type_mem = type_mem (\<sigma> other), id_mem = id_mem (\<sigma> other)\<rparr>;
          \<sigma>1 = \<sigma>(other := (\<sigma> other)\<lparr>payload_mem := [], tensors_mem := []\<rparr>)
      in Returns (\<sigma>1(new := moved)))"

text \<open>
  Copy assignment: copies of the two vectors of \<open>rhs\<close> are made, a temporary is constructed
  from them and from the type and id of \<open>rhs\<close>, and the temporary is swapped with the
  target. The temporary, then holding the target's old members, is destroyed.
\<close>

definition copy_assign :: "bool \<Rightarrow> bool \<Rightarrow> 'h heap \<Rightarrow> addr \<Rightarrow> addr \<Rightarrow> 'h outcome" where
  "copy_assign mem1 mem2 \<sigma> this rhs =
     (case vector_copy mem1 (payload_mem (\<sigma> rhs)) of
        Inl e \<Rightarrow> Throws e \<sigma>
      | Inr payload \<Rightarrow>
     (case vector_copy mem2 (tensors_mem (\<sigma> rhs)) of
        Inl e \<Rightarrow> Throws e \<sigma>
      | Inr tensors \<Rightarrow>
     (let temporary = Message_ctor payload tensors (type_mem (\<sigma> rhs)) (id_mem (\<sigma> rhs));
          (temporary', this') = swap temporary (\<sigma> this)
      in Returns (\<sigma>(this := this')))))"

text \<open>
  Move assignment: the temporary is constructed from the vectors of \<open>rhs\<close> themselves, which
  the constructor moves from, so \<open>rhs\<close> keeps them empty; type and id of \<open>rhs\<close> are passed by
  value and stay. Then the temporary is swapped with the target, read after the move:
  \<open>this\<close> and \<open>rhs\<close> may be the same object.
\<close>

definition move_assign :: "'h heap \<Rightarrow> addr \<Rightarrow> addr \<Rightarrow> 'h outcome" where
  "move_assign \<sigma> this rhs =
     (let temporary = Message_ctor (payload_mem (\<sigma> rhs)) (tensors_mem (\<sigma> rhs))
                        (type_mem (\<sigma> rhs)) (id_mem (\<sigma> rhs));
          \<sigma>1 = \<sigma>(rhs := (\<sigma> rhs)\<lparr>payload_mem := [], tensors_mem := []\<rparr>);
          (temporary', this') = swap temporary (\<sigma>1 this)
      in Returns (\<sigma>1(this := this')))"

text \<open>\<^verbatim>\<open>setId\<close> stores the id in the object.\<close>

definition setId :: "'h heap \<Rightarrow> addr \<Rightarrow> int64_t \<Rightarrow> 'h heap" where
  "setId \<sigma> this ident = \<sigma>(this := (\<sigma> this)\<lparr>id_mem := ident\<rparr>)"

text \<open>
  The accessors \<^verbatim>\<open>payload()\<close> and \<^verbatim>\<open>tensors()\<close> on a non-const object return a reference to
  the member, through which the caller changes it: any change is a function on the old
  contents.
\<close>

definition payload_update :: "'h heap \<Rightarrow> addr \<Rightarrow> (char list \<Rightarrow> char list) \<Rightarrow> 'h heap" where
  "payload_update \<sigma> this f = \<sigma>(this := (\<sigma> this)\<lparr>payload_mem := f (payload_mem (\<sigma> this))\<rparr>)"

definition tensors_update :: "'h heap \<Rightarrow> addr \<Rightarrow> ('h list \<Rightarrow> 'h list) \<Rightarrow> 'h heap" where
  "tensors_update \<sigma> this f = \<sigma>(this := (\<sigma> this)\<lparr>tensors_mem := f (tensors_mem (\<sigma> this))\<rparr>)"

subsection \<open>Example objects\<close>

text \<open>
  A heap with a call message with two handles at address 0 and an exception response
  elsewhere, for the concrete instances below.
\<close>

definition example_heap :: "nat heap" where
  "example_heap =
     (\<lambda>a. if a = 0
          then \<lparr>payload_mem = ''abc'', tensors_mem = [3, 5], type_mem = PYTHON_CALL, id_mem = 7\<rparr>
          else \<lparr>payload_mem = ''z'', tensors_mem = [], type_mem = EXCEPTION, id_mem = 9\<rparr>)"

section \<open>Properties\<close>

subsection \<open>Auxiliary facts\<close>

lemmas slot_defs = PAYLOAD_def TENSORS_def TYPE_IDX_def ID_def SIZE_def

lemmas MessageType_defs =
  SCRIPT_CALL_def PYTHON_CALL_def SCRIPT_REMOTE_CALL_def PYTHON_REMOTE_CALL_def
  SCRIPT_RREF_FETCH_CALL_def PYTHON_RREF_FETCH_CALL_def RREF_USER_DELETE_def
  RREF_CHILD_ACCEPT_def RREF_FORK_REQUEST_def BACKWARD_AUTOGRAD_REQ_def
  FORWARD_AUTOGRAD_REQ_def CLEANUP_AUTOGRAD_CONTEXT_REQ_def RUN_WITH_PROFILING_REQ_def
  SCRIPT_RET_def PYTHON_RET_def REMOTE_RET_def SCRIPT_RREF_FETCH_RET_def
  PYTHON_RREF_FETCH_RET_def EXCEPTION_def RREF_ACK_def BACKWARD_AUTOGRAD_RESP_def
  FORWARD_AUTOGRAD_RESP_def CLEANUP_AUTOGRAD_CONTEXT_RESP_def RUN_WITH_PROFILING_RESP_def

text \<open>The one fact about the numbering of the enumerators: no two share a tag.\<close>

lemma MessageType_enumerators_distinct: "distinct MessageType_enumerators"
  by (simp add: MessageType_enumerators_def MessageType_defs)

lemma static_cast_int64_of_MessageType:
  "static_cast_MessageType (int64_of_MessageType t) = t"
  unfolding static_cast_MessageType_def int64_of_MessageType_def
  by (rule bit_word_eqI) (auto simp: bit_simps)

lemma Message_eta:
  "\<lparr>payload_mem = payload_mem r, tensors_mem = tensors_mem r, type_mem = type_mem r,
    id_mem = id_mem r\<rparr> = (r :: 'h Message)"
  by simp

lemma emplace_back_all_eq: "emplace_back_all acc hs = acc @ map TensorV hs"
  by (induction hs arbitrary: acc) simp_all

lemma toTensors_map_TensorV: "toTensors (map TensorV hs) = Inr hs"
  by (induction hs) simp_all

lemma toTensors_Inl: "toTensors xs = Inl e \<Longrightarrow> e = WrongVariant"
proof (induction xs arbitrary: e)
  case Nil
  then show ?case by simp
next
  case (Cons x xs)
  then show ?case
    by (cases x) (auto split: sum.splits)
qed

lemma isString_iff: "isString a \<longleftrightarrow> (\<exists>s. a = StringV s)"
  by (cases a) simp_all

lemma isList_iff: "isList b \<longleftrightarrow> (\<exists>xs. b = GenericListV xs)"
  by (cases b) simp_all

lemma isInt_iff: "isInt c \<longleftrightarrow> (\<exists>k. c = IntV k)"
  by (cases c) simp_all

lemma toTensorVector_Inr_iff:
  "toTensorVector b = Inr hs \<longleftrightarrow> (\<exists>xs. b = GenericListV xs \<and> toTensors xs = Inr hs)"
  by (cases b) simp_all

subsection \<open>The checks of fromIValueTuple, one at a time\<close>

lemma fromIValueTuple_well_formed:
  "fromIValueTuple (TupleV [StringV p, GenericListV (map TensorV hs), IntV k, IntV i]) =
   Inr \<lparr>payload_mem = p, tensors_mem = hs, type_mem = static_cast_MessageType k, id_mem = i\<rparr>"
  by (simp add: fromIValueTuple_def toTensors_map_TensorV Message_ctor_def slot_defs)

lemma fromIValueTuple_not_string:
  "\<not> isString a \<Longrightarrow>
   fromIValueTuple (TupleV [a, b, c, d]) = Inl (InternalAssert ''Expected payload to be string'')"
  by (simp add: fromIValueTuple_def slot_defs)

lemma fromIValueTuple_not_list:
  "isString a \<Longrightarrow> \<not> isList b \<Longrightarrow>
   fromIValueTuple (TupleV [a, b, c, d]) =
     Inl (InternalAssert ''Expected tensorsIValue to be list'')"
  by (auto simp: isString_iff fromIValueTuple_def slot_defs)

lemma fromIValueTuple_not_tensors:
  "toTensors xs = Inl e \<Longrightarrow>
   fromIValueTuple (TupleV [StringV s, GenericListV xs, c, d]) = Inl WrongVariant"
  by (frule toTensors_Inl) (simp add: fromIValueTuple_def slot_defs)

lemma fromIValueTuple_type_not_int:
  "isString a \<Longrightarrow> toTensorVector b = Inr hs \<Longrightarrow> \<not> isInt c \<Longrightarrow>
   fromIValueTuple (TupleV [a, b, c, d]) =
     Inl (InternalAssert ''Expected messageTypeIValue to be int.'')"
  by (auto simp: isString_iff toTensorVector_Inr_iff fromIValueTuple_def slot_defs)

lemma fromIValueTuple_id_not_int:
  "isString a \<Longrightarrow> toTensorVector b = Inr hs \<Longrightarrow> isInt c \<Longrightarrow> \<not> isInt d \<Longrightarrow>
   fromIValueTuple (TupleV [a, b, c, d]) =
     Inl (InternalAssert ''Expected messageIdIValue to be int.'')"
  by (auto simp: isString_iff isInt_iff toTensorVector_Inr_iff fromIValueTuple_def slot_defs)

text \<open>
  A four-element tuple with a slot of the wrong variant gives no message: the call ends
  with the message of the first check that fails, or in the extraction of the handles.
\<close>

lemma fromIValueTuple_malformed_slot:
  assumes "\<not> isString a \<or> \<not> isList b \<or> \<not> isInt c \<or> \<not> isInt d"
  shows "fromIValueTuple (TupleV [a, b, c, d]) \<in>
    {Inl (InternalAssert ''Expected payload to be string''),
     Inl (InternalAssert ''Expected tensorsIValue to be list''),
     Inl WrongVariant,
     Inl (InternalAssert ''Expected messageTypeIValue to be int.''),
     Inl (InternalAssert ''Expected messageIdIValue to be int.'')}"
proof (cases "isString a \<and> isList b")
  case False
  then show ?thesis
    by (cases "isString a")
      (simp_all add: fromIValueTuple_not_string fromIValueTuple_not_list)
next
  case True
  then obtain s xs where a: "a = StringV s" and b: "b = GenericListV xs"
    by (auto simp: isString_iff isList_iff)
  show ?thesis
  proof (cases "toTensors xs")
    case (Inl e)
    then show ?thesis
      by (simp add: a b fromIValueTuple_not_tensors)
  next
    case (Inr hs)
    then have "toTensorVector b = Inr hs"
      by (simp add: b)
    with True assms show ?thesis
      by (cases "isInt c")
        (simp_all add: fromIValueTuple_type_not_int fromIValueTuple_id_not_int)
  qed
qed

subsection \<open>Round trip through the tuple\<close>

text \<open>
  C1. For every message \<open>m\<close>, converting \<open>m\<close> to a tuple and the tuple back succeeds and
  gives \<open>m\<close> again: the same payload bytes, the same handles in the same order, the same
  type and the same id. In particular a message constructed with the handles
  \<open>[h0, h1, h2]\<close> comes back with the handles \<open>[h0, h1, h2]\<close>.
\<close>

theorem fromIValueTuple_toIValueTuple:
  "fromIValueTuple (toIValueTuple m) = Inr (m :: 'h Message) \<and>
   fromIValueTuple (toIValueTuple (Message_ctor p [h0, h1, h2 :: 'h] t i)) =
     Inr \<lparr>payload_mem = p, tensors_mem = [h0, h1, h2], type_mem = t, id_mem = i\<rparr>"
proof -
  have tuple: "toIValueTuple x =
      TupleV [StringV (payload_mem x), GenericListV (map TensorV (tensors_mem x)),
              IntV (int64_of_MessageType (type_mem x)), IntV (id_mem x)]"
    for x :: "'h Message"
    by (simp add: toIValueTuple_def emplace_back_all_eq)
  have there_and_back: "fromIValueTuple (toIValueTuple x) = Inr x" for x :: "'h Message"
    by (simp add: tuple fromIValueTuple_well_formed static_cast_int64_of_MessageType)
  show ?thesis
    by (simp add: there_and_back Message_ctor_def)
qed

subsection \<open>Rejection of malformed tuples\<close>

text \<open>
  C2. \<open>fromIValueTuple\<close> returns no message, and ends with the message of the failed
  check, on every value that is not a tuple, on every tuple that does not have four
  elements, and on every four-element tuple whose slot 0 is not a string, whose slot 1 is
  not a list, whose slot 2 is not an integer or whose slot 3 is not an integer. The checks
  run in this order and the first that fails decides the message; between the checks of
  slot 1 and slot 2 the handles are extracted from the list.
\<close>

theorem fromIValueTuple_rejects:
  "(\<not> isTuple v \<longrightarrow>
      fromIValueTuple v = Inl (InternalAssert ''Expected messageTuple to be of type tuple.'')) \<and>
   (length vs \<noteq> 4 \<longrightarrow>
      fromIValueTuple (TupleV vs) = Inl (InternalAssert ''Expected 4 elements in tuple.'')) \<and>
   (\<not> isString a \<longrightarrow>
      fromIValueTuple (TupleV [a, b, c, d]) =
        Inl (InternalAssert ''Expected payload to be string'')) \<and>
   (isString a \<and> \<not> isList b \<longrightarrow>
      fromIValueTuple (TupleV [a, b, c, d]) =
        Inl (InternalAssert ''Expected tensorsIValue to be list'')) \<and>
   (isString a \<and> toTensorVector b = Inr hs \<and> \<not> isInt c \<longrightarrow>
      fromIValueTuple (TupleV [a, b, c, d]) =
        Inl (InternalAssert ''Expected messageTypeIValue to be int.'')) \<and>
   (isString a \<and> toTensorVector b = Inr hs \<and> isInt c \<and> \<not> isInt d \<longrightarrow>
      fromIValueTuple (TupleV [a, b, c, d]) =
        Inl (InternalAssert ''Expected messageIdIValue to be int.'')) \<and>
   (\<not> isString a \<or> \<not> isList b \<or> \<not> isInt c \<or> \<not> isInt d \<longrightarrow>
      fromIValueTuple (TupleV [a, b, c, d]) \<in>
        {Inl (InternalAssert ''Expected payload to be string''),
         Inl (InternalAssert ''Expected tensorsIValue to be list''),
         Inl WrongVariant,
         Inl (InternalAssert ''Expected messageTypeIValue to be int.''),
         Inl (InternalAssert ''Expected messageIdIValue to be int.'')})"
proof (intro conjI impI)
  show "fromIValueTuple v = Inl (InternalAssert ''Expected messageTuple to be of type tuple.'')"
    if "\<not> isTuple v"
    using that by (simp add: fromIValueTuple_def)
  show "fromIValueTuple (TupleV vs) = Inl (InternalAssert ''Expected 4 elements in tuple.'')"
    if "length vs \<noteq> 4"
    using that by (simp add: fromIValueTuple_def SIZE_def)
  show "fromIValueTuple (TupleV [a, b, c, d]) =
      Inl (InternalAssert ''Expected payload to be string'')"
    if "\<not> isString a"
    using that by (rule fromIValueTuple_not_string)
  show "fromIValueTuple (TupleV [a, b, c, d]) =
      Inl (InternalAssert ''Expected tensorsIValue to be list'')"
    if "isString a \<and> \<not> isList b"
    using that by (simp add: fromIValueTuple_not_list)
  show "fromIValueTuple (TupleV [a, b, c, d]) =
      Inl (InternalAssert ''Expected messageTypeIValue to be int.'')"
    if "isString a \<and> toTensorVector b = Inr hs \<and> \<not> isInt c"
    using that by (simp add: fromIValueTuple_type_not_int)
  show "fromIValueTuple (TupleV [a, b, c, d]) =
      Inl (InternalAssert ''Expected messageIdIValue to be int.'')"
    if "isString a \<and> toTensorVector b = Inr hs \<and> isInt c \<and> \<not> isInt d"
    using that by (simp add: fromIValueTuple_id_not_int)
  show "fromIValueTuple (TupleV [a, b, c, d]) \<in>
      {Inl (InternalAssert ''Expected payload to be string''),
       Inl (InternalAssert ''Expected tensorsIValue to be list''),
       Inl WrongVariant,
       Inl (InternalAssert ''Expected messageTypeIValue to be int.''),
       Inl (InternalAssert ''Expected messageIdIValue to be int.'')}"
    if "\<not> isString a \<or> \<not> isList b \<or> \<not> isInt c \<or> \<not> isInt d"
    using that by (rule fromIValueTuple_malformed_slot)
qed

text \<open>
  The rejections at concrete values: an integer in place of the tuple, a tuple of three
  elements, and four-element tuples with an integer in slot 0, a string in slot 1, a string
  in slot 2 and the empty value in slot 3.
\<close>

theorem fromIValueTuple_rejects_witness:
  "fromIValueTuple (IntV 5 :: nat IValue) =
     Inl (InternalAssert ''Expected messageTuple to be of type tuple.'') \<and>
   fromIValueTuple (TupleV [StringV ''abc'', GenericListV [TensorV (3::nat)], IntV 0]) =
     Inl (InternalAssert ''Expected 4 elements in tuple.'') \<and>
   fromIValueTuple (TupleV [IntV 9, GenericListV [TensorV (3::nat)], IntV 0, IntV 7]) =
     Inl (InternalAssert ''Expected payload to be string'') \<and>
   fromIValueTuple (TupleV [StringV ''abc'', StringV ''x'', IntV 0, IntV 7] :: nat IValue) =
     Inl (InternalAssert ''Expected tensorsIValue to be list'') \<and>
   fromIValueTuple
       (TupleV [StringV ''abc'', GenericListV [TensorV (3::nat)], StringV ''0'', IntV 7]) =
     Inl (InternalAssert ''Expected messageTypeIValue to be int.'') \<and>
   fromIValueTuple (TupleV [StringV ''abc'', GenericListV [TensorV (3::nat)], IntV 0, NoneV]) =
     Inl (InternalAssert ''Expected messageIdIValue to be int.'') \<and>
   fromIValueTuple (TupleV [StringV ''abc'', GenericListV [TensorV (3::nat)], IntV 0, NoneV]) \<in>
     {Inl (InternalAssert ''Expected payload to be string''),
      Inl (InternalAssert ''Expected tensorsIValue to be list''),
      Inl WrongVariant,
      Inl (InternalAssert ''Expected messageTypeIValue to be int.''),
      Inl (InternalAssert ''Expected messageIdIValue to be int.'')}"
proof -
  let ?l = "GenericListV [TensorV (3::nat)]"
  note r = fromIValueTuple_rejects [where hs = "[3::nat]"]
  have not_tuple: "fromIValueTuple (IntV 5 :: nat IValue) =
      Inl (InternalAssert ''Expected messageTuple to be of type tuple.'')"
    by (rule r [THEN conjunct1, rule_format]) simp
  have three: "fromIValueTuple (TupleV [StringV ''abc'', ?l, IntV 0]) =
      Inl (InternalAssert ''Expected 4 elements in tuple.'')"
    by (rule r [THEN conjunct2, THEN conjunct1, rule_format]) simp
  have slot0: "fromIValueTuple (TupleV [IntV 9, ?l, IntV 0, IntV 7]) =
      Inl (InternalAssert ''Expected payload to be string'')"
    by (rule r [THEN conjunct2, THEN conjunct2, THEN conjunct1, rule_format]) simp
  have slot1:
    "fromIValueTuple (TupleV [StringV ''abc'', StringV ''x'', IntV 0, IntV 7] :: nat IValue) =
      Inl (InternalAssert ''Expected tensorsIValue to be list'')"
    by (rule r [THEN conjunct2, THEN conjunct2, THEN conjunct2, THEN conjunct1, rule_format])
      simp
  have slot2: "fromIValueTuple (TupleV [StringV ''abc'', ?l, StringV ''0'', IntV 7]) =
      Inl (InternalAssert ''Expected messageTypeIValue to be int.'')"
    by (rule r [THEN conjunct2, THEN conjunct2, THEN conjunct2, THEN conjunct2,
          THEN conjunct1, rule_format])
      simp
  have slot3: "fromIValueTuple (TupleV [StringV ''abc'', ?l, IntV 0, NoneV]) =
      Inl (InternalAssert ''Expected messageIdIValue to be int.'')"
    by (rule r [THEN conjunct2, THEN conjunct2, THEN conjunct2, THEN conjunct2,
          THEN conjunct2, THEN conjunct1, rule_format])
      simp
  have no_message: "fromIValueTuple (TupleV [StringV ''abc'', ?l, IntV 0, NoneV]) \<in>
     {Inl (InternalAssert ''Expected payload to be string''),
      Inl (InternalAssert ''Expected tensorsIValue to be list''),
      Inl WrongVariant,
      Inl (InternalAssert ''Expected messageTypeIValue to be int.''),
      Inl (InternalAssert ''Expected messageIdIValue to be int.'')}"
    by (rule r [THEN conjunct2, THEN conjunct2, THEN conjunct2, THEN conjunct2,
          THEN conjunct2, THEN conjunct2, rule_format])
      simp
  from not_tuple three slot0 slot1 slot2 slot3 no_message show ?thesis
    by (intro conjI)
qed

subsection \<open>No range check on the type\<close>

text \<open>
  C3. The claim is that a tuple whose slot 2 holds an integer outside the enumeration is
  rejected. The code has no such check. As amended: whatever integer \<open>k\<close> slot 2 holds,
  a four-element tuple of a string, a list of handles, \<open>k\<close> and an integer is converted
  to the message with that payload, those handles, that id and the type
  \<open>static_cast<MessageType>(k)\<close>; only when \<open>k\<close> is the integer of a type \<open>t\<close> is the
  type of the message \<open>t\<close>.
\<close>

theorem fromIValueTuple_no_range_check:
  "fromIValueTuple (TupleV [StringV p, GenericListV (map TensorV hs), IntV k, IntV i]) =
     Inr (Message_ctor p hs (static_cast_MessageType k) i) \<and>
   type_acc (Message_ctor p hs (static_cast_MessageType k) i) = static_cast_MessageType k \<and>
   fromIValueTuple
       (TupleV [StringV p, GenericListV (map TensorV hs), IntV (int64_of_MessageType t), IntV i]) =
     Inr (Message_ctor p hs t i)"
  by (simp add: fromIValueTuple_well_formed static_cast_int64_of_MessageType
      Message_ctor_def type_acc_def)

text \<open>
  The tag 1000 is no enumerator, and the tuple that carries it in slot 2 is converted to a
  message of type 1000.
\<close>

theorem fromIValueTuple_unchecked_type_counterexample:
  "(1000 :: MessageType) \<notin> set MessageType_enumerators \<and>
   fromIValueTuple
       (TupleV [StringV ''abc'', GenericListV [TensorV (3::nat)], IntV 1000, IntV 7]) =
     Inr \<lparr>payload_mem = ''abc'', tensors_mem = [3], type_mem = 1000, id_mem = 7\<rparr>"
proof -
  have outside: "(1000 :: MessageType) \<notin> set MessageType_enumerators"
    by (simp add: MessageType_enumerators_def MessageType_defs)
  have accepted: "fromIValueTuple
       (TupleV [StringV ''abc'', GenericListV [TensorV (3::nat)], IntV 1000, IntV 7]) =
     Inr \<lparr>payload_mem = ''abc'', tensors_mem = [3], type_mem = 1000, id_mem = 7\<rparr>"
    using fromIValueTuple_well_formed [of "''abc''" "[3::nat]" 1000 7]
    by (simp add: static_cast_MessageType_def)
  from outside accepted show ?thesis ..
qed

subsection \<open>Requests and responses\<close>

text \<open>
  C4. No message is both a request and a response, whatever its type; in particular, for
  every enumerator \<open>k\<close>, a message of type \<open>k\<close> is not both.
\<close>

theorem isRequest_isResponse_disjoint:
  "\<not> (isRequest m \<and> isResponse m) \<and>
   list_all (\<lambda>k. \<not> (isRequest (m\<lparr>type_mem := k\<rparr>) \<and> isResponse (m\<lparr>type_mem := k\<rparr>)))
     MessageType_enumerators"
proof -
  have disjoint: "\<not> (isRequest x \<and> isResponse x)" for x :: "'a Message"
    unfolding isRequest_def isResponse_def MessageType_defs by auto
  show ?thesis
    by (simp add: disjoint list_all_iff)
qed

text \<open>
  C5. A message is a request when its type is a call on a built-in operator or on a user
  function, one of the two remote calls, one of the two fetch calls, the user delete, the
  child accept, the fork request, the forward or the backward autograd request, the cleanup
  request or the profiling request. A message is a response when its type is the return of
  a built-in or of a user function call, the remote return, one of the two fetch returns,
  the exception, the acknowledgement, the forward or the backward autograd response, the
  cleanup response or the profiling response.
\<close>

theorem isRequest_isResponse_listed:
  "(type_mem m \<in> {SCRIPT_CALL, PYTHON_CALL, SCRIPT_REMOTE_CALL, PYTHON_REMOTE_CALL,
       SCRIPT_RREF_FETCH_CALL, PYTHON_RREF_FETCH_CALL, RREF_USER_DELETE, RREF_CHILD_ACCEPT,
       RREF_FORK_REQUEST, FORWARD_AUTOGRAD_REQ, BACKWARD_AUTOGRAD_REQ,
       CLEANUP_AUTOGRAD_CONTEXT_REQ, RUN_WITH_PROFILING_REQ} \<longrightarrow> isRequest m) \<and>
   (type_mem m \<in> {SCRIPT_RET, PYTHON_RET, REMOTE_RET, SCRIPT_RREF_FETCH_RET,
       PYTHON_RREF_FETCH_RET, EXCEPTION, RREF_ACK, FORWARD_AUTOGRAD_RESP,
       BACKWARD_AUTOGRAD_RESP, CLEANUP_AUTOGRAD_CONTEXT_RESP, RUN_WITH_PROFILING_RESP}
      \<longrightarrow> isResponse m)"
  unfolding isRequest_def isResponse_def by auto

text \<open>A fork request is a request and an acknowledgement is a response.\<close>

theorem isRequest_isResponse_listed_witness:
  "isRequest (Message_ctor ''abc'' [3::nat] RREF_FORK_REQUEST 7) \<and>
   isResponse (Message_ctor ''abc'' [3::nat] RREF_ACK 7)"
proof -
  have req: "isRequest (Message_ctor ''abc'' [3::nat] RREF_FORK_REQUEST 7)"
    by (rule isRequest_isResponse_listed [THEN conjunct1, rule_format])
      (simp add: Message_ctor_def)
  have resp: "isResponse (Message_ctor ''abc'' [3::nat] RREF_ACK 7)"
    by (rule isRequest_isResponse_listed [THEN conjunct2, rule_format])
      (simp add: Message_ctor_def)
  from req resp show ?thesis ..
qed

subsection \<open>The exception response\<close>

text \<open>
  C6. For every string \<open>s\<close> and id \<open>i\<close>, \<open>createExceptionResponse s i\<close> is a message of
  type \<open>EXCEPTION\<close> with id \<open>i\<close>, no handles and the bytes of \<open>s\<close> as payload; the
  overload on an exception object gives the message of its description \<open>what e\<close> and the
  same id. For the string \<open>boom\<close> and the id 42 it is the message written out.
\<close>

theorem createExceptionResponse_fields:
  "type_acc (createExceptionResponse s i) = EXCEPTION \<and>
   id_acc (createExceptionResponse s i) = i \<and>
   tensors_acc (createExceptionResponse s i) = [] \<and>
   payload_acc (createExceptionResponse s i) = s \<and>
   createExceptionResponse_exception e i = createExceptionResponse (what e) i \<and>
   createExceptionResponse ''boom'' 42 =
     \<lparr>payload_mem = ''boom'', tensors_mem = [], type_mem = EXCEPTION, id_mem = 42\<rparr>"
  by (simp add: createExceptionResponse_def createExceptionResponse_exception_def
      Message_ctor_def type_acc_def id_acc_def tensors_acc_def payload_acc_def)

subsection \<open>Assignment\<close>

lemma swap_temporary:
  "swap (Message_ctor p hs k i) t =
     (t, \<lparr>payload_mem = p, tensors_mem = hs, type_mem = k, id_mem = i\<rparr>)"
  by (simp add: swap_def std_swap_def Message_ctor_def)

lemma copy_assign_returns:
  "copy_assign True True \<sigma> this rhs = Returns (\<sigma>(this := \<sigma> rhs))"
  by (simp add: copy_assign_def vector_copy_def swap_temporary Message_eta)

lemma move_assign_returns:
  "move_assign \<sigma> this rhs =
     Returns ((\<sigma>(rhs := (\<sigma> rhs)\<lparr>payload_mem := [], tensors_mem := []\<rparr>))(this := \<sigma> rhs))"
  by (simp add: move_assign_def swap_temporary Let_def Message_eta)

text \<open>
  C7. For every heap and every two references \<open>this\<close> and \<open>rhs\<close>, aliased or not: copy
  assignment (when both vector copies find memory) and move assignment return, and after
  either the target holds the four members that the source held before; after copy
  assignment the source holds them too. Both results are the heap in which the target is
  what \<open>swap\<close> leaves in it when called on the temporary constructed from the members of
  the source. If a vector copy of the copy assignment throws, the whole heap, the target
  included, is as before.
\<close>

theorem assignment_copy_move_agree:
  "is_Returns (copy_assign True True \<sigma> this rhs) \<and>
   is_Returns (move_assign \<sigma> this rhs) \<and>
   heap_of (copy_assign True True \<sigma> this rhs) this = \<sigma> rhs \<and>
   heap_of (move_assign \<sigma> this rhs) this = \<sigma> rhs \<and>
   heap_of (copy_assign True True \<sigma> this rhs) rhs = \<sigma> rhs \<and>
   heap_of (copy_assign True True \<sigma> this rhs) =
     \<sigma>(this := snd (swap (Message_ctor (payload_mem (\<sigma> rhs)) (tensors_mem (\<sigma> rhs))
                              (type_mem (\<sigma> rhs)) (id_mem (\<sigma> rhs)))
                      (\<sigma> this))) \<and>
   heap_of (move_assign \<sigma> this rhs) =
     (\<sigma>(rhs := (\<sigma> rhs)\<lparr>payload_mem := [], tensors_mem := []\<rparr>))
       (this := snd (swap (Message_ctor (payload_mem (\<sigma> rhs)) (tensors_mem (\<sigma> rhs))
                              (type_mem (\<sigma> rhs)) (id_mem (\<sigma> rhs)))
                      ((\<sigma>(rhs := (\<sigma> rhs)\<lparr>payload_mem := [], tensors_mem := []\<rparr>)) this))) \<and>
   copy_assign False mem2 \<sigma> this rhs = Throws BadAlloc \<sigma> \<and>
   copy_assign True False \<sigma> this rhs = Throws BadAlloc \<sigma>"
proof -
  have returned: "is_Returns (copy_assign True True \<sigma> this rhs)"
    "is_Returns (move_assign \<sigma> this rhs)"
    "heap_of (copy_assign True True \<sigma> this rhs) this = \<sigma> rhs"
    "heap_of (move_assign \<sigma> this rhs) this = \<sigma> rhs"
    "heap_of (copy_assign True True \<sigma> this rhs) rhs = \<sigma> rhs"
    by (simp_all add: copy_assign_returns move_assign_returns)
  have by_swap: "heap_of (copy_assign True True \<sigma> this rhs) =
      \<sigma>(this := snd (swap (Message_ctor (payload_mem (\<sigma> rhs)) (tensors_mem (\<sigma> rhs))
                              (type_mem (\<sigma> rhs)) (id_mem (\<sigma> rhs)))
                      (\<sigma> this)))"
    "heap_of (move_assign \<sigma> this rhs) =
     (\<sigma>(rhs := (\<sigma> rhs)\<lparr>payload_mem := [], tensors_mem := []\<rparr>))
       (this := snd (swap (Message_ctor (payload_mem (\<sigma> rhs)) (tensors_mem (\<sigma> rhs))
                              (type_mem (\<sigma> rhs)) (id_mem (\<sigma> rhs)))
                      ((\<sigma>(rhs := (\<sigma> rhs)\<lparr>payload_mem := [], tensors_mem := []\<rparr>)) this)))"
    by (simp_all add: copy_assign_returns move_assign_returns swap_temporary Message_eta)
  have thrown: "copy_assign False mem2 \<sigma> this rhs = Throws BadAlloc \<sigma>"
    "copy_assign True False \<sigma> this rhs = Throws BadAlloc \<sigma>"
    by (simp_all add: copy_assign_def vector_copy_def)
  from returned by_swap thrown show ?thesis
    by (intro conjI)
qed

text \<open>Move assignment of an object to itself changes nothing.\<close>

lemma move_assign_self: "move_assign \<sigma> this this = Returns \<sigma>"
  by (simp add: move_assign_returns)

text \<open>
  C10. The claim is that after \<open>t = move(s)\<close> the source is left with an empty payload and
  no handles. That fails when \<open>s\<close> and \<open>t\<close> are one object. As amended: when the source is
  another object than the target, move assignment returns and leaves the source with an
  empty payload and an empty handle sequence, and with the type and the id it had.
\<close>

theorem move_assign_source:
  assumes "rhs \<noteq> this"
  shows "\<exists>\<sigma>'. move_assign \<sigma> this rhs = Returns \<sigma>' \<and>
     payload_mem (\<sigma>' rhs) = [] \<and> tensors_mem (\<sigma>' rhs) = [] \<and>
     type_mem (\<sigma>' rhs) = type_mem (\<sigma> rhs) \<and> id_mem (\<sigma>' rhs) = id_mem (\<sigma> rhs)"
  using assms by (simp add: move_assign_returns)

text \<open>
  Moving the call message at address 0 of the example heap into the object at address 1
  leaves it empty, a \<open>PYTHON_CALL\<close> with id 7.
\<close>

theorem move_assign_source_witness:
  "move_assign example_heap 1 0 =
     Returns (example_heap
       (0 := \<lparr>payload_mem = [], tensors_mem = [], type_mem = PYTHON_CALL, id_mem = 7\<rparr>,
        1 := \<lparr>payload_mem = ''abc'', tensors_mem = [3, 5], type_mem = PYTHON_CALL,
               id_mem = 7\<rparr>)) \<and>
   payload_mem (heap_of (move_assign example_heap 1 0) 0) = [] \<and>
   tensors_mem (heap_of (move_assign example_heap 1 0) 0) = [] \<and>
   type_mem (heap_of (move_assign example_heap 1 0) 0) = PYTHON_CALL \<and>
   id_mem (heap_of (move_assign example_heap 1 0) 0) = 7"
proof -
  have distinct_objects: "(0::nat) \<noteq> 1"
    by simp
  from move_assign_source [OF distinct_objects, of example_heap]
  obtain \<sigma>' where ret: "move_assign example_heap 1 0 = Returns \<sigma>'"
    and src: "payload_mem (\<sigma>' 0) = []" "tensors_mem (\<sigma>' 0) = []"
      "type_mem (\<sigma>' 0) = type_mem (example_heap 0)" "id_mem (\<sigma>' 0) = id_mem (example_heap 0)"
    by blast
  have "move_assign example_heap 1 0 =
     Returns (example_heap
       (0 := \<lparr>payload_mem = [], tensors_mem = [], type_mem = PYTHON_CALL, id_mem = 7\<rparr>,
        1 := \<lparr>payload_mem = ''abc'', tensors_mem = [3, 5], type_mem = PYTHON_CALL,
               id_mem = 7\<rparr>))"
    by (simp add: move_assign_returns example_heap_def)
  with ret src show ?thesis
    by (simp add: example_heap_def)
qed

text \<open>
  Move assignment of the object at address 0 to itself returns the heap as it was: the
  source still has its three payload bytes and its two handles.
\<close>

theorem move_assign_self_counterexample:
  "move_assign example_heap 0 0 = Returns example_heap \<and>
   payload_mem (heap_of (move_assign example_heap 0 0) 0) = ''abc'' \<and>
   tensors_mem (heap_of (move_assign example_heap 0 0) 0) = [3, 5] \<and>
   payload_mem (heap_of (move_assign example_heap 0 0) 0) \<noteq> [] \<and>
   tensors_mem (heap_of (move_assign example_heap 0 0) 0) \<noteq> []"
  by (simp add: move_assign_self example_heap_def)

subsection \<open>setId\<close>

text \<open>
  C8. After \<open>setId\<close> with the value \<open>v\<close> on an object, the id accessor of the object
  returns \<open>v\<close>, its payload, handles and type are as before, and every other object of the
  heap is as before.
\<close>

theorem setId_frame:
  "id_acc (setId \<sigma> this v this) = v \<and>
   payload_acc (setId \<sigma> this v this) = payload_acc (\<sigma> this) \<and>
   tensors_acc (setId \<sigma> this v this) = tensors_acc (\<sigma> this) \<and>
   type_acc (setId \<sigma> this v this) = type_acc (\<sigma> this) \<and>
   (\<forall>a. a \<noteq> this \<longrightarrow> setId \<sigma> this v a = \<sigma> a)"
  by (simp add: setId_def id_acc_def payload_acc_def tensors_acc_def type_acc_def)

text \<open>
  Setting the id of the object at address 0 of the example heap to 42: its id is 42, its
  other members are as they were, and the object at address 1 is as it was.
\<close>

theorem setId_frame_witness:
  "id_acc (setId example_heap 0 42 0) = 42 \<and>
   payload_acc (setId example_heap 0 42 0) = ''abc'' \<and>
   tensors_acc (setId example_heap 0 42 0) = [3, 5] \<and>
   type_acc (setId example_heap 0 42 0) = PYTHON_CALL \<and>
   setId example_heap 0 42 1 = example_heap 1"
proof -
  note frame = setId_frame [of example_heap 0 42]
  have other: "setId example_heap 0 42 1 = example_heap 1"
    by (rule frame [THEN conjunct2, THEN conjunct2, THEN conjunct2, THEN conjunct2,
          rule_format]) simp
  from frame other show ?thesis
    by (simp add: example_heap_def payload_acc_def tensors_acc_def type_acc_def)
qed

subsection \<open>Copy construction\<close>

text \<open>
  C9. Copy construction at a new address (when both vector copies find memory) returns;
  the new object has the four members of the original, and the original is as before.
  From then on a change of the payload of the copy leaves the payload of the original as
  it was, and a change of the payload of the original leaves the payload of the copy as it
  was; the same holds for the handle lists.
\<close>

theorem copy_construct_independent:
  assumes "new \<noteq> other"
  shows "\<exists>\<sigma>'. copy_construct True True \<sigma> new other = Returns \<sigma>' \<and>
     \<sigma>' new = \<sigma> other \<and> \<sigma>' other = \<sigma> other \<and>
     payload_mem (payload_update \<sigma>' new f other) = payload_mem (\<sigma> other) \<and>
     payload_mem (payload_update \<sigma>' other f new) = payload_mem (\<sigma> other) \<and>
     tensors_mem (tensors_update \<sigma>' new g other) = tensors_mem (\<sigma> other) \<and>
     tensors_mem (tensors_update \<sigma>' other g new) = tensors_mem (\<sigma> other)"
  using assms
  by (simp add: copy_construct_def vector_copy_def payload_update_def tensors_update_def
      Message_eta)

text \<open>
  The object at address 0 of the example heap copied to address 1: overwriting the payload
  of the copy leaves \<open>abc\<close> in the original, and overwriting the payload of the original
  leaves \<open>abc\<close> in the copy.
\<close>

theorem copy_construct_independent_witness:
  "copy_construct True True example_heap 1 0 = Returns (example_heap(1 := example_heap 0)) \<and>
   payload_mem (payload_update (example_heap(1 := example_heap 0)) 1 (\<lambda>bytes. ''xyz'') 0) =
     ''abc'' \<and>
   payload_mem (payload_update (example_heap(1 := example_heap 0)) 1 (\<lambda>bytes. ''xyz'') 1) =
     ''xyz'' \<and>
   payload_mem (payload_update (example_heap(1 := example_heap 0)) 0 (\<lambda>bytes. ''xyz'') 1) =
     ''abc''"
proof -
  have distinct_objects: "(1::nat) \<noteq> 0"
    by simp
  from copy_construct_independent [OF distinct_objects, of example_heap "\<lambda>bytes. ''xyz''" id]
  obtain \<sigma>' where ret: "copy_construct True True example_heap 1 0 = Returns \<sigma>'"
    and m: "payload_mem (payload_update \<sigma>' 1 (\<lambda>bytes. ''xyz'') 0) = payload_mem (example_heap 0)"
    and c: "payload_mem (payload_update \<sigma>' 0 (\<lambda>bytes. ''xyz'') 1) = payload_mem (example_heap 0)"
    by blast
  have eq: "\<sigma>' = example_heap(1 := example_heap 0)"
    using ret by (simp add: copy_construct_def vector_copy_def Message_eta)
  show ?thesis
    using ret m c unfolding eq
    by (simp add: payload_update_def example_heap_def)
qed

end
